theory Spec2Isabelle
  imports Complex_Main "HOL-Library.Product_Lexorder"
begin

section \<open>Values\<close>

text \<open>
  A cell of a numeric column is a float or missing (NaN, for which \<open>pd.isna\<close> answers
  true).  A float is modelled by the real number it stands for, the missing value by
  \<open>None\<close>; the arithmetic of the source is read over the reals, so rounding errors of
  the last binary digit and the infinities are outside the model.
\<close>

type_synonym cell = "real option"

section \<open>The AQI calculator (src/data/collector.py)\<close>

text \<open>
  The body of the loop of \<open>KarachiAQICollector.calculate_aqi\<close>, for one element: the
  branches in the order of the \<open>if\<close>/\<open>elif\<close> chain, with the constants of the source.
\<close>

definition calculate_aqi_value :: "cell \<Rightarrow> cell" where
  "calculate_aqi_value c =
     (case c of
        None \<Rightarrow> None
      | Some v \<Rightarrow>
          if v \<le> 12.0 then Some (v * (50 / 12.0))
          else if v \<le> 35.4 then Some (50 + (v - 12.1) * (50 / 23.3))
          else if v \<le> 55.4 then Some (100 + (v - 35.5) * (50 / 19.9))
          else if v \<le> 150.4 then Some (150 + (v - 55.5) * (50 / 94.9))
          else if v \<le> 250.4 then Some (200 + (v - 150.5) * (100 / 99.9))
          else Some (300 + (v - 250.5) * (200 / 249.9)))"

text \<open>The index of a concentration that is not missing.\<close>

definition band_index :: "real \<Rightarrow> real" where
  "band_index v = the (calculate_aqi_value (Some v))"

text \<open>
  \<open>calculate_aqi\<close> fills an array of the length of its argument, element by element.
\<close>

definition calculate_aqi :: "cell list \<Rightarrow> cell list" where
  "calculate_aqi pm25 = map calculate_aqi_value pm25"

definition get_aqi_category :: "cell \<Rightarrow> string" where
  "get_aqi_category a =
     (case a of
        None \<Rightarrow> ''Unknown''
      | Some aqi \<Rightarrow>
          if aqi \<le> 50 then ''Good''
          else if aqi \<le> 100 then ''Moderate''
          else if aqi \<le> 150 then ''Unhealthy for Sensitive''
          else if aqi \<le> 200 then ''Unhealthy''
          else if aqi \<le> 300 then ''Very Unhealthy''
          else ''Hazardous'')"

section \<open>Column operations of the data-frame library\<close>

text \<open>
  A column is a list of cells in row order.  \<open>dropna\<close> keeps the values of the
  non-missing cells: the reductions of the library skip missing cells.
\<close>

definition dropna :: "'a option list \<Rightarrow> 'a list" where
  "dropna xs = map the (filter (\<lambda>c. c \<noteq> None) xs)"

text \<open>
  \<open>Series.shift(k)\<close>: the column keeps its length; for \<open>k \<ge> 0\<close> row \<open>i\<close> receives the
  cell of row \<open>i - k\<close>, for \<open>k < 0\<close> the cell of row \<open>i + |k|\<close>; the rows that have no
  such source row are missing.
\<close>

definition shift :: "int \<Rightarrow> 'a option list \<Rightarrow> 'a option list" where
  "shift k xs =
     (let n = length xs in
      if 0 \<le> k then replicate (min (nat k) n) None @ take (n - nat k) xs
      else drop (nat (- k)) xs @ replicate (min (nat (- k)) n) None)"

text \<open>\<open>Series.mean()\<close>: the mean of the non-missing cells, missing when there is none.\<close>

definition pd_mean :: "cell list \<Rightarrow> cell" where
  "pd_mean xs =
     (let vs = dropna xs in
      if vs = [] then None else Some (sum_list vs / real (length vs)))"

definition pd_max :: "cell list \<Rightarrow> cell" where
  "pd_max xs =
     (let vs = dropna xs in
      if vs = [] then None else Some (fold max (tl vs) (hd vs)))"

definition pd_min :: "cell list \<Rightarrow> cell" where
  "pd_min xs =
     (let vs = dropna xs in
      if vs = [] then None else Some (fold min (tl vs) (hd vs)))"

text \<open>
  The aggregation \<open>'std'\<close> of a group-by: the library's default is one delta degree of
  freedom (\<open>ddof=1\<close>), so the sum of squared deviations of the \<open>n\<close> non-missing cells is
  divided by \<open>n - 1\<close>, and the result is missing for fewer than two of them.
\<close>

definition pd_std :: "cell list \<Rightarrow> cell" where
  "pd_std xs =
     (let vs = dropna xs; n = length vs in
      if n < 2 then None
      else let m = sum_list vs / real n in
           Some (sqrt (sum_list (map (\<lambda>v. (v - m)\<^sup>2) vs) / real (n - 1))))"

text \<open>
  \<open>Series.rolling(w).mean()\<close>: the window of row \<open>i\<close> is made of the rows \<open>i - w + 1\<close> to
  \<open>i\<close> that exist; \<open>min_periods\<close> defaults to \<open>w\<close>, so the result is missing unless the
  window holds \<open>w\<close> non-missing cells.
\<close>

definition rolling_window :: "nat \<Rightarrow> 'a list \<Rightarrow> nat \<Rightarrow> 'a list" where
  "rolling_window w xs i = drop (i + 1 - w) (take (i + 1) xs)"

definition rolling_mean :: "nat \<Rightarrow> cell list \<Rightarrow> cell list" where
  "rolling_mean w xs =
     map (\<lambda>i. let vs = dropna (rolling_window w xs i) in
               if length vs < w then None
               else Some (sum_list vs / real (length vs)))
         [0..<length xs]"

text \<open>
  \<open>groupby(key)[col].transform(f)\<close> for an \<open>f\<close> that returns one value: \<open>f\<close> is applied
  to the cells of each group, taken in row order, and its value is written to every
  row of the group.
\<close>

definition group_cells :: "'k list \<Rightarrow> 'a list \<Rightarrow> 'k \<Rightarrow> 'a list" where
  "group_cells keys col k = map snd (filter (\<lambda>p. fst p = k) (zip keys col))"

definition groupby_transform ::
  "'k list \<Rightarrow> 'a list \<Rightarrow> ('a list \<Rightarrow> 'b) \<Rightarrow> 'b list" where
  "groupby_transform keys col f = map (\<lambda>k. f (group_cells keys col k)) keys"

text \<open>
  \<open>DataFrame.round(d)\<close>: the nearest multiple of \<open>10^(-d)\<close>, a tie going to the even
  one.
\<close>

definition rint :: "real \<Rightarrow> int" where
  "rint x =
     (let f = \<lfloor>x\<rfloor>; r = x - of_int f in
      if r < 1 / 2 then f
      else if 1 / 2 < r then f + 1
      else if even f then f else f + 1)"

definition pd_round :: "nat \<Rightarrow> cell \<Rightarrow> cell" where
  "pd_round d c = map_option (\<lambda>x. of_int (rint (x * 10 ^ d)) / 10 ^ d) c"

section \<open>Timestamps\<close>

record timestamp =
  ts_year :: int
  ts_month :: nat
  ts_day :: nat
  ts_hour :: nat
  ts_minute :: nat

text \<open>A calendar date is (year, month, day); dates compare in this order.\<close>

type_synonym date = "int \<times> nat \<times> nat"

definition dt_date :: "timestamp \<Rightarrow> date" where
  "dt_date t = (ts_year t, ts_month t, ts_day t)"

text \<open>The number of days from 1970-01-01 to a date of the Gregorian calendar.\<close>

definition days_from_civil :: "date \<Rightarrow> int" where
  "days_from_civil d =
     (case d of (y0, m, dd) \<Rightarrow>
        let y = (if m \<le> 2 then y0 - 1 else y0);
            era = y div 400;
            yoe = y - era * 400;
            mp = (if 2 < m then int m - 3 else int m + 9);
            doy = (153 * mp + 2) div 5 + int dd - 1;
            doe = yoe * 365 + yoe div 4 - yoe div 100 + doy
        in era * 146097 + doe - 719468)"

text \<open>\<open>.dt.dayofweek\<close>: Monday is 0 and Sunday is 6 (1970-01-01 was a Thursday).\<close>

definition dt_dayofweek :: "date \<Rightarrow> nat" where
  "dt_dayofweek d = nat ((days_from_civil d + 3) mod 7)"

definition dt_day_name :: "date \<Rightarrow> string" where
  "dt_day_name d =
     [''Monday'', ''Tuesday'', ''Wednesday'', ''Thursday'', ''Friday'', ''Saturday'',
      ''Sunday''] ! dt_dayofweek d"

section \<open>The feature engineer (src/features/engineer.py)\<close>

text \<open>A row of the table the collector writes: an observation with its AQI.\<close>

record aqi_record =
  timestamp :: timestamp
  pm2_5 :: cell
  pm10 :: cell
  ozone :: cell
  city :: string
  latitude :: real
  longitude :: real
  aqi :: cell
  aqi_category :: string

text \<open>A row of the table \<open>create_features\<close> returns: the input row and the new columns.\<close>

record feature_row =
  obs :: aqi_record
  hour :: nat
  day_of_week :: nat
  month :: nat
  is_weekend :: nat
  pm2_5_lag_1h :: cell
  pm2_5_lag_24h :: cell
  pm2_5_6h_avg :: cell
  pm2_5_24h_avg :: cell
  date :: date
  daily_avg_aqi :: cell
  next_day_avg_aqi :: cell

definition create_features :: "aqi_record list \<Rightarrow> feature_row list" where
  "create_features df =
     (let stamps = map timestamp df;
          dows = map (dt_dayofweek \<circ> dt_date) stamps;
          lag_1h = shift 1 (map pm2_5 df);
          lag_24h = shift 24 (map pm2_5 df);
          avg_6h = rolling_mean 6 (map pm2_5 df);
          avg_24h = rolling_mean 24 (map pm2_5 df);
          dates = map dt_date stamps;
          daily_avg = groupby_transform dates (map aqi df) pd_mean;
          next_day = groupby_transform dates (map aqi df) (\<lambda>x. pd_mean (shift (- 24) x))
      in map (\<lambda>i.
           \<lparr> obs = df ! i,
             hour = ts_hour (stamps ! i),
             day_of_week = dows ! i,
             month = ts_month (stamps ! i),
             is_weekend = (if dows ! i \<in> {5, 6} then 1 else 0),
             pm2_5_lag_1h = lag_1h ! i,
             pm2_5_lag_24h = lag_24h ! i,
             pm2_5_6h_avg = avg_6h ! i,
             pm2_5_24h_avg = avg_24h ! i,
             date = dates ! i,
             daily_avg_aqi = daily_avg ! i,
             next_day_avg_aqi = next_day ! i \<rparr>)
         [0..<length df])"

text \<open>
  The AQI cells of the rows that have the calendar date of row \<open>i\<close>, in row order: the
  group of row \<open>i\<close> under \<open>groupby('date')\<close>.
\<close>

definition date_group_aqi :: "aqi_record list \<Rightarrow> nat \<Rightarrow> cell list" where
  "date_group_aqi df i =
     map aqi (filter (\<lambda>r. dt_date (timestamp r) = dt_date (timestamp (df ! i))) df)"

text \<open>
  The label the spec's design notes propose instead, written from the spec's words
  ("mean AQI of the following calendar day"): the mean AQI of the rows whose date is
  the day after the date of row \<open>i\<close>.
\<close>

definition spec_following_day_mean :: "aqi_record list \<Rightarrow> nat \<Rightarrow> cell" where
  "spec_following_day_mean df i =
     pd_mean (map aqi (filter (\<lambda>r. days_from_civil (dt_date (timestamp r)) =
                                      days_from_civil (dt_date (timestamp (df ! i))) + 1) df))"

text \<open>A row of the table \<open>create_daily_data\<close> returns.\<close>

record daily_row =
  date :: date
  daily_avg_aqi :: cell
  daily_max_aqi :: cell
  daily_min_aqi :: cell
  daily_std_aqi :: cell
  pm2_5_mean :: cell
  pm10_mean :: cell
  ozone_mean :: cell
  day_of_week :: nat
  day_name :: string
  prev_day_aqi :: cell
  prev_week_aqi :: cell
  next_day_aqi :: cell

text \<open>
  \<open>groupby('date')\<close> makes one group per distinct date, the groups in ascending order
  of the date and the rows of a group in the order of the input.  Every aggregate is
  rounded to two decimals by \<open>.round(2)\<close>; the lags and the label are shifts of the
  rounded column of daily means.
\<close>

definition date_group :: "feature_row list \<Rightarrow> date \<Rightarrow> aqi_record list" where
  "date_group df k = map obs (filter (\<lambda>r. feature_row.date r = k) df)"

definition create_daily_data :: "feature_row list \<Rightarrow> daily_row list" where
  "create_daily_data df =
     (let keys = sort (remdups (map feature_row.date df));
          aqi_mean = map (\<lambda>k. pd_round 2 (pd_mean (map aqi (date_group df k)))) keys;
          aqi_max = map (\<lambda>k. pd_round 2 (pd_max (map aqi (date_group df k)))) keys;
          aqi_min = map (\<lambda>k. pd_round 2 (pd_min (map aqi (date_group df k)))) keys;
          aqi_std = map (\<lambda>k. pd_round 2 (pd_std (map aqi (date_group df k)))) keys;
          pm2_5_m = map (\<lambda>k. pd_round 2 (pd_mean (map pm2_5 (date_group df k)))) keys;
          pm10_m = map (\<lambda>k. pd_round 2 (pd_mean (map pm10 (date_group df k)))) keys;
          ozone_m = map (\<lambda>k. pd_round 2 (pd_mean (map ozone (date_group df k)))) keys;
          prev_day = shift 1 aqi_mean;
          prev_week = shift 7 aqi_mean;
          next_day = shift (- 1) aqi_mean
      in map (\<lambda>i.
           \<lparr> date = keys ! i,
             daily_avg_aqi = aqi_mean ! i,
             daily_max_aqi = aqi_max ! i,
             daily_min_aqi = aqi_min ! i,
             daily_std_aqi = aqi_std ! i,
             pm2_5_mean = pm2_5_m ! i,
             pm10_mean = pm10_m ! i,
             ozone_mean = ozone_m ! i,
             day_of_week = dt_dayofweek (keys ! i),
             day_name = dt_day_name (keys ! i),
             prev_day_aqi = prev_day ! i,
             prev_week_aqi = prev_week ! i,
             next_day_aqi = next_day ! i \<rparr>)
         [0..<length keys])"

text \<open>
  The population standard deviation of the spec (divisor \<open>n\<close>), written from the spec's
  words, to compare \<open>daily_std_aqi\<close> with.
\<close>

definition spec_population_std :: "cell list \<Rightarrow> cell" where
  "spec_population_std xs =
     (let vs = dropna xs; n = length vs in
      if n = 0 then None
      else let m = sum_list vs / real n in
           Some (sqrt (sum_list (map (\<lambda>v. (v - m)\<^sup>2) vs) / real n)))"

section \<open>The trainer (src/models/trainer.py)\<close>

text \<open>
  The source defines no exception of its own and raises none itself: every failure on
  the path of \<open>train\<close> is raised by a call into the library (the split, the regressor,
  the metrics).  \<open>ValueError\<close> is what the library's validation raises;
  \<open>InsufficientDataError\<close> and \<open>SchemaMismatchError\<close> are the names of the spec's
  taxonomy, and no path of the source builds them.
\<close>

datatype error = ValueError | InsufficientDataError | SchemaMismatchError








text \<open>
  The fields of a \<open>SimpleAQIModel\<close>; \<open>model\<close> is \<open>None\<close> as long as the regressor has
  not been fitted.
\<close>

record 'm aqi_model =
  model :: "'m option"
  feature_importance :: "(string \<times> real) list option"



text \<open>The files of the model directory: what \<open>joblib.dump\<close> wrote under each name.\<close>

type_synonym 'm files = "string \<rightharpoonup> 'm aqi_model"


definition load :: "'m aqi_model \<Rightarrow> string \<Rightarrow> 'm files \<Rightarrow> bool \<times> 'm aqi_model" where
  "load self filename fs =
     (case fs filename of Some d \<Rightarrow> (True, d) | None \<Rightarrow> (False, self))"


section \<open>Example tables\<close>

text \<open>
  A row as the collector writes it, for a day and time of January 2024 and a pm2.5
  reading; the index and the category are those the calculator gives.
\<close>

definition example_row :: "nat \<Rightarrow> nat \<Rightarrow> nat \<Rightarrow> real \<Rightarrow> aqi_record" where
  "example_row d h mi p =
     \<lparr> timestamp = \<lparr> ts_year = 2024, ts_month = 1, ts_day = d, ts_hour = h, ts_minute = mi \<rparr>,
       pm2_5 = Some p, pm10 = None, ozone = None,
       city = ''Karachi'', latitude = 24.8607, longitude = 67.0011,
       aqi = calculate_aqi_value (Some p),
       aqi_category = get_aqi_category (calculate_aqi_value (Some p)) \<rparr>"

definition example_long_day :: "aqi_record list" where
  "example_long_day =
     map (\<lambda>k. example_row 1 (k div 2) (30 * (k mod 2)) (if k < 24 then 6 else 12)) [0..<26]"

definition example_two_rows :: "aqi_record list" where
  "example_two_rows = [example_row 1 0 0 6, example_row 2 0 0 12]"

definition example_full_day :: "aqi_record list" where
  "example_full_day = map (\<lambda>h. example_row 1 h 0 6) [0..<24] @ [example_row 2 0 0 12]"

text \<open>
  Two full days at hourly cadence with readings that change by the hour, a day of four
  readings with the indices 1, 1, 1, 5, and a day of two readings with the indices 1, 3.
\<close>

definition example_two_days :: "aqi_record list" where
  "example_two_days =
     map (\<lambda>h. example_row 1 h 0 (real h / 2)) [0..<24] @
     map (\<lambda>h. example_row 2 h 0 (real h / 4)) [0..<24]"

definition example_std_day :: "aqi_record list" where
  "example_std_day =
     [example_row 3 0 0 0.24, example_row 3 1 0 0.24, example_row 3 2 0 0.24,
      example_row 3 3 0 1.2]"

definition example_odd_day :: "aqi_record list" where
  "example_odd_day = [example_row 4 0 0 0.24, example_row 4 1 0 0.72]"






section \<open>Properties of the AQI calculator\<close>

lemma calculate_aqi_value_None_iff: "calculate_aqi_value c = None \<longleftrightarrow> c = None"
  unfolding calculate_aqi_value_def by (simp split: option.split del: not_None_eq)

text \<open>
  What the bands do give: inside a band the index does not decrease, each band stays
  between the index values of its two ends when entered at or above its anchor, and
  over the concentrations with one decimal (the multiples of 0.1, none of which lies
  between a threshold and the next anchor) the index does not decrease at all.
\<close>

lemma band_index_bounds:
  "v \<le> 12 \<Longrightarrow> band_index v \<le> 50"
  "12.1 \<le> v \<Longrightarrow> v \<le> 35.4 \<Longrightarrow> 50 \<le> band_index v \<and> band_index v \<le> 100"
  "35.5 \<le> v \<Longrightarrow> v \<le> 55.4 \<Longrightarrow> 100 \<le> band_index v \<and> band_index v \<le> 150"
  "55.5 \<le> v \<Longrightarrow> v \<le> 150.4 \<Longrightarrow> 150 \<le> band_index v \<and> band_index v \<le> 200"
  "150.5 \<le> v \<Longrightarrow> v \<le> 250.4 \<Longrightarrow> 200 \<le> band_index v \<and> band_index v \<le> 300"
  "250.5 \<le> v \<Longrightarrow> 300 \<le> band_index v"
  by (simp_all add: band_index_def calculate_aqi_value_def field_simps)

lemma band_index_mono_in_band:
  assumes "v \<le> w"
    and "w \<le> 12 \<or> (12 < v \<and> w \<le> 35.4) \<or> (35.4 < v \<and> w \<le> 55.4) \<or>
         (55.4 < v \<and> w \<le> 150.4) \<or> (150.4 < v \<and> w \<le> 250.4) \<or> 250.4 < v"
  shows "band_index v \<le> band_index w"
  using assms by (auto simp: band_index_def calculate_aqi_value_def field_simps)

lemma grid_gap:
  fixes k :: nat
  shows "real k / 10 \<le> 12 \<or> 12.1 \<le> real k / 10"
    "real k / 10 \<le> 35.4 \<or> 35.5 \<le> real k / 10"
    "real k / 10 \<le> 55.4 \<or> 55.5 \<le> real k / 10"
    "real k / 10 \<le> 150.4 \<or> 150.5 \<le> real k / 10"
    "real k / 10 \<le> 250.4 \<or> 250.5 \<le> real k / 10"
  by (simp_all add: field_simps) linarith+


lemma band_index_upper_on_grid:
  fixes k :: nat
  defines "v \<equiv> real k / 10"
  shows "v \<le> 35.4 \<Longrightarrow> band_index v \<le> 100"
    and "v \<le> 55.4 \<Longrightarrow> band_index v \<le> 150"
    and "v \<le> 150.4 \<Longrightarrow> band_index v \<le> 200"
    and "v \<le> 250.4 \<Longrightarrow> band_index v \<le> 300"
proof -
  note g = grid_gap [of k, folded v_def]
  note b = band_index_bounds [of v]
  show u2: "band_index v \<le> 100" if "v \<le> 35.4"
    using that g(1) b(1,2) by linarith
  show u3: "band_index v \<le> 150" if "v \<le> 55.4"
    using that g(2) u2 b(3) by linarith
  show u4: "band_index v \<le> 200" if "v \<le> 150.4"
    using that g(3) u3 b(4) by linarith
  show "band_index v \<le> 300" if "v \<le> 250.4"
    using that g(4) u4 b(5) by linarith
qed

lemma band_index_mono_on_grid:
  fixes k1 k2 :: nat
  assumes "k1 \<le> k2"
  shows "band_index (real k1 / 10) \<le> band_index (real k2 / 10)"
proof -
  define v w where "v = real k1 / 10" and "w = real k2 / 10"
  have vw: "v \<le> w" using assms by (simp add: v_def w_def)
  note gv = grid_gap [of k1, folded v_def]
  note gw = grid_gap [of k2, folded w_def]
  note uv = band_index_upper_on_grid [of k1, folded v_def]
  note bv = band_index_bounds [of v]
  note bw = band_index_bounds [of w]
  note m = band_index_mono_in_band [OF vw]
  consider "w \<le> 12" | "12.1 \<le> w" "w \<le> 35.4" | "35.5 \<le> w" "w \<le> 55.4"
    | "55.5 \<le> w" "w \<le> 150.4" | "150.5 \<le> w" "w \<le> 250.4" | "250.5 \<le> w"
    using gw by linarith
  then have "band_index v \<le> band_index w"
  proof cases
    case 1
    then show ?thesis using m by simp
  next
    case 2
    show ?thesis
    proof (cases "v \<le> 12")
      case True
      then show ?thesis using bv(1) bw(2) 2 by linarith
    next
      case False
      then show ?thesis using m 2 by simp
    qed
  next
    case 3
    show ?thesis
    proof (cases "v \<le> 35.4")
      case True
      then show ?thesis using uv(1) bw(3) 3 by linarith
    next
      case False
      then show ?thesis using m 3 by simp
    qed
  next
    case 4
    show ?thesis
    proof (cases "v \<le> 55.4")
      case True
      then show ?thesis using uv(2) bw(4) 4 by linarith
    next
      case False
      then show ?thesis using m 4 by simp
    qed
  next
    case 5
    show ?thesis
    proof (cases "v \<le> 150.4")
      case True
      then show ?thesis using uv(3) bw(5) 5 by linarith
    next
      case False
      then show ?thesis using m 5 by simp
    qed
  next
    case 6
    show ?thesis
    proof (cases "v \<le> 250.4")
      case True
      then show ?thesis using uv(4) bw(6) 6 by linarith
    next
      case False
      then show ?thesis using m by simp
    qed
  qed
  then show ?thesis by (simp only: v_def w_def)
qed

lemma band_index_dip_bounded:
  assumes "v \<le> w"
  shows "band_index v \<le> band_index w + 0.1 * (50 / 19.9)"
  using assms by (auto simp: band_index_def calculate_aqi_value_def field_simps)

lemma calculate_aqi_band_index: "calculate_aqi [Some v] = [Some (band_index v)]"
  by (simp add: calculate_aqi_def band_index_def calculate_aqi_value_def)

text \<open>
  Claim C2, as stated (non-decreasing and continuous over all concentrations), at the
  concentrations 12.0 and 12.05: 12.0 gives 50 and 12.05 gives 11625/233, about 49.89.
  Each band above the first is anchored 0.1 above the threshold that opens it, so a
  concentration between a threshold and the next anchor gets a smaller index than the
  threshold itself.
\<close>

theorem calculate_aqi_band_edge_drop:
  "calculate_aqi [Some 12.0, Some 12.05] = [Some 50, Some (11625 / 233)] \<and>
   (11625 / 233 :: real) < 50"
  by (simp add: calculate_aqi_def calculate_aqi_value_def)

text \<open>
  Claim C2, amended: for concentrations \<open>v \<le> w\<close> the index of \<open>v\<close> exceeds the index of
  \<open>w\<close> by at most 0.1 times the steepest slope at a band edge, \<open>0.1 * 50/19.9\<close> (about
  0.25); when \<open>v\<close> and \<open>w\<close> lie in one band the index does not decrease, and over the
  concentrations with one decimal (the multiples of 0.1) it does not decrease at all.
\<close>

theorem calculate_aqi_monotone_up_to_band_edge:
  "calculate_aqi [Some v] = [Some (band_index v)] \<and>
   (v \<le> w \<longrightarrow> band_index v \<le> band_index w + 0.1 * (50 / 19.9)) \<and>
   (v \<le> w \<and> (w \<le> 12.0 \<or> (12.0 < v \<and> w \<le> 35.4) \<or> (35.4 < v \<and> w \<le> 55.4) \<or>
       (55.4 < v \<and> w \<le> 150.4) \<or> (150.4 < v \<and> w \<le> 250.4) \<or> 250.4 < v) \<longrightarrow>
      band_index v \<le> band_index w) \<and>
   (k1 \<le> k2 \<longrightarrow> band_index (real k1 / 10) \<le> band_index (real k2 / 10))"
proof (intro conjI impI)
  show "calculate_aqi [Some v] = [Some (band_index v)]" by (rule calculate_aqi_band_index)
  show "band_index v \<le> band_index w + 0.1 * (50 / 19.9)" if "v \<le> w"
    using that by (rule band_index_dip_bounded)
  show "band_index v \<le> band_index w"
    if "v \<le> w \<and> (w \<le> 12.0 \<or> (12.0 < v \<and> w \<le> 35.4) \<or> (35.4 < v \<and> w \<le> 55.4) \<or>
       (55.4 < v \<and> w \<le> 150.4) \<or> (150.4 < v \<and> w \<le> 250.4) \<or> 250.4 < v)"
    using that band_index_mono_in_band [of v w] by simp
  show "band_index (real k1 / 10) \<le> band_index (real k2 / 10)" if "k1 \<le> k2"
    using that by (rule band_index_mono_on_grid)
qed

theorem calculate_aqi_monotone_up_to_band_edge_witness:
  "calculate_aqi [Some 12.05] = [Some (band_index 12.05)] \<and>
   band_index 12.0 \<le> band_index 12.05 + 0.1 * (50 / 19.9) \<and>
   band_index 12.05 \<le> band_index 35.4 \<and>
   band_index (real 120 / 10) \<le> band_index (real 121 / 10) \<and>
   band_index 12.0 = 50 \<and> band_index 12.1 = 50 \<and> band_index 35.4 = 100"
proof -
  have v: "band_index 12.0 = 50 \<and> band_index 12.1 = 50 \<and> band_index 35.4 = 100"
    by (simp add: band_index_def calculate_aqi_value_def)
  from calculate_aqi_monotone_up_to_band_edge [of "12.05" "35.4" 120 121]
    calculate_aqi_monotone_up_to_band_edge [of "12.0" "12.05" 120 121] v
  show ?thesis by simp
qed

text \<open>
  Claim C3, as stated, at \<open>pm2_5 = 40\<close>: the index is 22150/199, more than 1.29 away
  from 112.6.
\<close>

theorem calculate_aqi_40_not_112_6:
  "calculate_aqi [Some 40] = [Some (22150 / 199)] \<and>
   1.29 < \<bar>22150 / 199 - 112.6 :: real\<bar>"
  by (simp add: calculate_aqi_def calculate_aqi_value_def)

text \<open>
  Claim C3, amended: \<open>pm2_5 = 10\<close> gives the index \<open>10 * 50/12 = 125/3\<close>, which is
  41.67 to two decimals, with category Good; \<open>pm2_5 = 40\<close> gives
  \<open>100 + 4.5 * 50/19.9 = 22150/199\<close>, which is 111.31 to two decimals, with category
  Unhealthy for Sensitive.
\<close>

theorem calculate_aqi_scenarios:
  "calculate_aqi [Some 10] = [Some (125 / 3)] \<and>
   \<bar>125 / 3 - 41.67 :: real\<bar> < 0.005 \<and>
   pd_round 2 (Some (125 / 3)) = Some 41.67 \<and>
   get_aqi_category (Some (125 / 3)) = ''Good'' \<and>
   calculate_aqi [Some 40] = [Some (22150 / 199)] \<and>
   \<bar>22150 / 199 - 111.31 :: real\<bar> < 0.005 \<and>
   pd_round 2 (Some (22150 / 199)) = Some 111.31 \<and>
   get_aqi_category (Some (22150 / 199)) = ''Unhealthy for Sensitive''"
proof -
  have f1: "\<lfloor>12500 / 3 :: real\<rfloor> = 4166" by linarith
  have f2: "\<lfloor>2215000 / 199 :: real\<rfloor> = 11130" by linarith
  have r1: "pd_round 2 (Some (125 / 3)) = Some 41.67"
    by (simp add: pd_round_def rint_def Let_def f1)
  have r2: "pd_round 2 (Some (22150 / 199)) = Some 111.31"
    by (simp add: pd_round_def rint_def Let_def f2)
  show ?thesis
    by (simp add: r1 r2) (simp add: calculate_aqi_def calculate_aqi_value_def get_aqi_category_def)
qed

text \<open>
  Claim C4: a missing concentration gives a missing index, at the same position and
  nowhere else, and a missing index gives the category Unknown (and only a missing
  one does); the two functions are total, no input makes them fail; the thresholds of
  \<open>get_aqi_category\<close> are closed above: at most 50 is Good, at most 100 Moderate, at
  most 150 Unhealthy for Sensitive, at most 200 Unhealthy, at most 300 Very Unhealthy,
  anything above Hazardous.
\<close>

theorem missing_propagates:
  "length (calculate_aqi pm25) = length pm25 \<and>
   (\<forall>i < length pm25. calculate_aqi pm25 ! i = None \<longleftrightarrow> pm25 ! i = None) \<and>
   (get_aqi_category a = ''Unknown'' \<longleftrightarrow> a = None) \<and>
   (get_aqi_category (Some x) = ''Good'' \<longleftrightarrow> x \<le> 50) \<and>
   (get_aqi_category (Some x) = ''Moderate'' \<longleftrightarrow> 50 < x \<and> x \<le> 100) \<and>
   (get_aqi_category (Some x) = ''Unhealthy for Sensitive'' \<longleftrightarrow> 100 < x \<and> x \<le> 150) \<and>
   (get_aqi_category (Some x) = ''Unhealthy'' \<longleftrightarrow> 150 < x \<and> x \<le> 200) \<and>
   (get_aqi_category (Some x) = ''Very Unhealthy'' \<longleftrightarrow> 200 < x \<and> x \<le> 300) \<and>
   (get_aqi_category (Some x) = ''Hazardous'' \<longleftrightarrow> 300 < x)"
proof -
  have len: "length (calculate_aqi pm25) = length pm25"
    by (simp add: calculate_aqi_def)
  have miss: "\<forall>i < length pm25. calculate_aqi pm25 ! i = None \<longleftrightarrow> pm25 ! i = None"
    by (simp add: calculate_aqi_def calculate_aqi_value_None_iff)
  have unk: "get_aqi_category a = ''Unknown'' \<longleftrightarrow> a = None"
    by (cases a) (simp_all add: get_aqi_category_def)
  have cats: "(get_aqi_category (Some x) = ''Good'' \<longleftrightarrow> x \<le> 50) \<and>
   (get_aqi_category (Some x) = ''Moderate'' \<longleftrightarrow> 50 < x \<and> x \<le> 100) \<and>
   (get_aqi_category (Some x) = ''Unhealthy for Sensitive'' \<longleftrightarrow> 100 < x \<and> x \<le> 150) \<and>
   (get_aqi_category (Some x) = ''Unhealthy'' \<longleftrightarrow> 150 < x \<and> x \<le> 200) \<and>
   (get_aqi_category (Some x) = ''Very Unhealthy'' \<longleftrightarrow> 200 < x \<and> x \<le> 300) \<and>
   (get_aqi_category (Some x) = ''Hazardous'' \<longleftrightarrow> 300 < x)"
    by (simp add: get_aqi_category_def)
  from len miss unk cats show ?thesis by blast
qed

theorem missing_propagates_witness:
  "calculate_aqi [Some 10, None] ! 1 = None \<and> calculate_aqi [Some 10, None] ! 0 \<noteq> None \<and>
   get_aqi_category (calculate_aqi [Some 10, None] ! 1) = ''Unknown'' \<and>
   get_aqi_category (Some 50) = ''Good'' \<and> get_aqi_category (Some 300.5) = ''Hazardous''"
  using missing_propagates [of "[Some 10, None]" "calculate_aqi [Some 10, None] ! 1" 50]
    missing_propagates [of "[Some 10, None]" None "300.5"]
  by simp

section \<open>Properties of the column operations\<close>

lemma length_shift: "length (shift k xs) = length xs"
  by (auto simp: shift_def Let_def)

lemma shift_nth_lag:
  assumes "i < length xs"
  shows "shift (int k) xs ! i = (if i < k then None else xs ! (i - k))"
  using assms by (auto simp: shift_def Let_def nth_append min_def)

lemma dropna_append: "dropna (xs @ ys) = dropna xs @ dropna ys"
  by (simp add: dropna_def)

lemma dropna_replicate_None: "dropna (replicate n None) = []"
  by (simp add: dropna_def)

lemma dropna_shift_lead: "dropna (shift (- int k) xs) = dropna (drop k xs)"
  by (cases "k = 0") (simp_all add: shift_def Let_def dropna_append dropna_replicate_None)

lemma pd_mean_shift_lead: "pd_mean (shift (- int k) xs) = pd_mean (drop k xs)"
  by (simp add: pd_mean_def dropna_shift_lead)

lemma group_cells_map:
  "group_cells (map f df) (map g df) k = map g (filter (\<lambda>r. f r = k) df)"
  by (induction df) (simp_all add: group_cells_def)

section \<open>Properties of the hourly features\<close>

lemma length_create_features: "length (create_features df) = length df"
  by (simp add: create_features_def Let_def)

lemma next_day_avg_aqi_nth:
  assumes "i < length df"
  shows "next_day_avg_aqi (create_features df ! i) =
         pd_mean (shift (- 24) (map aqi (filter (\<lambda>r. dt_date (timestamp r) = dt_date (timestamp (df ! i))) df)))"
  using assms
  by (simp add: create_features_def Let_def groupby_transform_def group_cells_map)

lemma lag_24h_nth:
  assumes "i < length df"
  shows "pm2_5_lag_24h (create_features df ! i) = (if i < 24 then None else pm2_5 (df ! (i - 24)))"
  using assms shift_nth_lag [of i "map pm2_5 df" 24]
  by (simp add: create_features_def Let_def)

lemma lag_1h_nth:
  assumes "i < length df"
  shows "pm2_5_lag_1h (create_features df ! i) = (if i < 1 then None else pm2_5 (df ! (i - 1)))"
  using assms shift_nth_lag [of i "map pm2_5 df" 1]
  by (simp add: create_features_def Let_def)

lemma length_dropna_le: "length (dropna ys) \<le> length ys"
  by (simp add: dropna_def)

lemma length_dropna_eq_iff: "length (dropna ys) = length ys \<longleftrightarrow> None \<notin> set ys"
proof (induction ys)
  case Nil
  then show ?case by (simp add: dropna_def)
next
  case (Cons y ys)
  have le: "length (dropna ys) \<le> length ys" by (rule length_dropna_le)
  show ?case
  proof (cases y)
    case None
    then have "dropna (y # ys) = dropna ys" by (simp add: dropna_def)
    with le None show ?thesis by simp
  next
    case (Some v)
    then have "dropna (y # ys) = v # dropna ys" by (simp add: dropna_def)
    with Cons Some show ?thesis by simp
  qed
qed

lemma length_rolling_window:
  assumes "i < length xs"
  shows "length (rolling_window w xs i) = min (i + 1) w"
  using assms by (simp add: rolling_window_def)

lemma set_drop_conv_nth: "set (drop a ys) = {ys ! k | k. a \<le> k \<and> k < length ys}"
proof (intro set_eqI iffI)
  fix x assume "x \<in> set (drop a ys)"
  then obtain m where m: "m < length (drop a ys)" "drop a ys ! m = x"
    by (auto simp: in_set_conv_nth)
  then have "ys ! (a + m) = x" "a \<le> a + m" "a + m < length ys" by auto
  then show "x \<in> {ys ! k | k. a \<le> k \<and> k < length ys}" by blast
next
  fix x assume "x \<in> {ys ! k | k. a \<le> k \<and> k < length ys}"
  then obtain k where k: "a \<le> k" "k < length ys" "x = ys ! k" by blast
  then have "k - a < length (drop a ys)" "drop a ys ! (k - a) = x" by auto
  then show "x \<in> set (drop a ys)" by (metis nth_mem)
qed

lemma set_rolling_window:
  assumes "i < length xs"
  shows "set (rolling_window w xs i) = {xs ! j | j. i + 1 \<le> j + w \<and> j \<le> i}"
proof -
  have len: "length (take (i + 1) xs) = i + 1" using assms by simp
  have "set (rolling_window w xs i) =
        {take (i + 1) xs ! k | k. i + 1 - w \<le> k \<and> k < i + 1}"
    unfolding rolling_window_def set_drop_conv_nth len ..
  also have "\<dots> = {xs ! j | j. i + 1 \<le> j + w \<and> j \<le> i}"
  proof (intro set_eqI iffI)
    fix x assume "x \<in> {take (i + 1) xs ! k | k. i + 1 - w \<le> k \<and> k < i + 1}"
    then obtain k where "i + 1 - w \<le> k" "k < i + 1" "x = take (i + 1) xs ! k" by blast
    then have "i + 1 \<le> k + w" "k \<le> i" "x = xs ! k" by auto
    then show "x \<in> {xs ! j | j. i + 1 \<le> j + w \<and> j \<le> i}" by blast
  next
    fix x assume "x \<in> {xs ! j | j. i + 1 \<le> j + w \<and> j \<le> i}"
    then obtain j where "i + 1 \<le> j + w" "j \<le> i" "x = xs ! j" by blast
    then have "i + 1 - w \<le> j" "j < i + 1" "x = take (i + 1) xs ! j" by auto
    then show "x \<in> {take (i + 1) xs ! k | k. i + 1 - w \<le> k \<and> k < i + 1}" by blast
  qed
  finally show ?thesis .
qed

lemma rolling_mean_None_iff:
  assumes "i < length xs" and "0 < w"
  shows "rolling_mean w xs ! i = None \<longleftrightarrow>
         i < w - 1 \<or> (\<exists>j. i \<le> j + (w - 1) \<and> j \<le> i \<and> xs ! j = None)"
proof -
  let ?win = "rolling_window w xs i"
  have len: "length ?win = min (i + 1) w"
    using assms(1) by (rule length_rolling_window)
  have "rolling_mean w xs ! i = None \<longleftrightarrow> length (dropna ?win) < w"
    using assms(1) by (simp add: rolling_mean_def Let_def)
  also have "\<dots> \<longleftrightarrow> length ?win < w \<or> None \<in> set ?win"
    using length_dropna_le [of ?win] length_dropna_eq_iff [of ?win] len by linarith
  also have "\<dots> \<longleftrightarrow> i + 1 < w \<or> (\<exists>j. i + 1 \<le> j + w \<and> j \<le> i \<and> xs ! j = None)"
    using len assms(2) by (auto simp: set_rolling_window [OF assms(1)])
  also have "\<dots> \<longleftrightarrow> i < w - 1 \<or> (\<exists>j. i \<le> j + (w - 1) \<and> j \<le> i \<and> xs ! j = None)"
  proof -
    have "i + 1 < w \<longleftrightarrow> i < w - 1" by linarith
    moreover have "i + 1 \<le> j + w \<longleftrightarrow> i \<le> j + (w - 1)" for j using assms(2) by linarith
    ultimately show ?thesis by simp
  qed
  finally show ?thesis .
qed

text \<open>
  Claim C1: for every row of every input table, the label \<open>next_day_avg_aqi\<close> is the mean
  of the AQI series of the row's own calendar-date group after that series has been
  shifted back by 24 positions inside the group; this is the mean of the non-missing
  AQI cells of the group from its 25th row on.  It is not the mean AQI of the
  following calendar day: there is a table and a row where the two differ.
\<close>

theorem next_day_avg_aqi_shifted_group_mean:
  "(\<forall>i < length df.
      next_day_avg_aqi (create_features df ! i) = pd_mean (shift (- 24) (date_group_aqi df i)) \<and>
      pd_mean (shift (- 24) (date_group_aqi df i)) = pd_mean (drop 24 (date_group_aqi df i))) \<and>
   (\<exists>df' i'. i' < length df' \<and>
      next_day_avg_aqi (create_features df' ! i') \<noteq> spec_following_day_mean df' i')"
proof -
  have a: "\<forall>i < length df.
      next_day_avg_aqi (create_features df ! i) = pd_mean (shift (- 24) (date_group_aqi df i))"
    by (simp add: next_day_avg_aqi_nth date_group_aqi_def)
  have b: "pd_mean (shift (- 24) xs) = pd_mean (drop 24 xs)" for xs :: "cell list"
    using pd_mean_shift_lead [of 24 xs] by simp
  have c: "0 < length example_two_rows \<and>
      next_day_avg_aqi (create_features example_two_rows ! 0) \<noteq> spec_following_day_mean example_two_rows 0"
    by code_simp
  from a b c show ?thesis by blast
qed

theorem next_day_avg_aqi_shifted_group_mean_witness:
  "0 < length example_long_day \<and>
   next_day_avg_aqi (create_features example_long_day ! 0) = Some 50 \<and>
   feature_row.daily_avg_aqi (create_features example_long_day ! 0) = Some (350 / 13)"
proof -
  have l: "0 < length example_long_day" by code_simp
  have e: "pd_mean (drop 24 (date_group_aqi example_long_day 0)) = Some 50" by code_simp
  have d: "feature_row.daily_avg_aqi (create_features example_long_day ! 0) = Some (350 / 13)"
    by code_simp
  from next_day_avg_aqi_shifted_group_mean [of example_long_day] l e d show ?thesis by simp
qed

text \<open>
  Claim C10: when the calendar-date group of a row has at most 24 rows, as every
  complete day at hourly cadence has, the label \<open>next_day_avg_aqi\<close> of the row is
  missing: the shift by 24 inside the group leaves nothing to average.
\<close>

theorem short_group_label_missing:
  assumes "i < length df"
    and "length (filter (\<lambda>r. dt_date (timestamp r) = dt_date (timestamp (df ! i))) df) \<le> 24"
  shows "next_day_avg_aqi (create_features df ! i) = None"
proof -
  let ?g = "map aqi (filter (\<lambda>r. dt_date (timestamp r) = dt_date (timestamp (df ! i))) df)"
  have "next_day_avg_aqi (create_features df ! i) = pd_mean (shift (- int 24) ?g)"
    using assms(1) by (simp add: next_day_avg_aqi_nth)
  also have "\<dots> = pd_mean (drop 24 ?g)" by (rule pd_mean_shift_lead)
  also have "drop 24 ?g = []" using assms(2) by simp
  finally show ?thesis by (simp add: pd_mean_def dropna_def)
qed

theorem short_group_label_missing_witness:
  "0 < length example_full_day \<and>
   length (filter (\<lambda>r. dt_date (timestamp r) = dt_date (timestamp (example_full_day ! 0)))
             example_full_day) = 24 \<and>
   next_day_avg_aqi (create_features example_full_day ! 0) = None"
proof -
  have l: "0 < length example_full_day" by code_simp
  have g: "length (filter (\<lambda>r. dt_date (timestamp r) = dt_date (timestamp (example_full_day ! 0)))
             example_full_day) = 24" by code_simp
  from short_group_label_missing [of 0 example_full_day] l g show ?thesis by simp
qed

lemma lag_24h_column: "map pm2_5_lag_24h (create_features df) = shift 24 (map pm2_5 df)"
proof (rule nth_equalityI)
  show "length (map pm2_5_lag_24h (create_features df)) = length (shift 24 (map pm2_5 df))"
    by (simp add: length_create_features length_shift)
next
  fix i assume "i < length (map pm2_5_lag_24h (create_features df))"
  then have "i < length df" by (simp add: length_create_features)
  then show "map pm2_5_lag_24h (create_features df) ! i = shift 24 (map pm2_5 df) ! i"
    using shift_nth_lag [of i "map pm2_5 df" 24]
    by (simp add: length_create_features lag_24h_nth)
qed

lemma filter_defined_all:
  assumes "None \<notin> set xs"
  shows "filter (\<lambda>c. c \<noteq> None) xs = xs"
proof -
  from assms have "\<forall>c \<in> set xs. c \<noteq> None" by metis
  then show ?thesis by (simp only: filter_id_conv)
qed

text \<open>
  Claim C5: for a table of \<open>N > 24\<close> rows without missing pm2.5, the column
  \<open>pm2_5_lag_24h\<close> is defined on exactly \<open>N - 24\<close> rows; it is missing on the rows of
  index below 24 and on every row of index \<open>i \<ge> 24\<close> it is the pm2.5 of row \<open>i - 24\<close>.
\<close>

theorem lag_24h_defined:
  assumes "\<forall>r \<in> set df. pm2_5 r \<noteq> None" and "24 < length df"
  shows "length (filter (\<lambda>r. pm2_5_lag_24h r \<noteq> None) (create_features df)) = length df - 24 \<and>
         (\<forall>i < length df. pm2_5_lag_24h (create_features df ! i) =
                            (if i < 24 then None else pm2_5 (df ! (i - 24))))"
proof -
  let ?col = "map pm2_5 df"
  have nomiss: "None \<notin> set (take (length df - 24) ?col)"
  proof
    assume "None \<in> set (take (length df - 24) ?col)"
    then have "None \<in> set ?col" by (rule in_set_takeD)
    then obtain r where "r \<in> set df" "pm2_5 r = None" by (auto simp del: not_None_eq)
    with assms(1) show False by blast
  qed
  have "length (filter (\<lambda>r. pm2_5_lag_24h r \<noteq> None) (create_features df)) =
        length (filter (\<lambda>c. c \<noteq> None) (map pm2_5_lag_24h (create_features df)))"
    by (simp add: filter_map comp_def)
  also have "\<dots> = length (filter (\<lambda>c. c \<noteq> None) (shift 24 ?col))"
    by (simp only: lag_24h_column)
  also have "\<dots> = length (filter (\<lambda>c. c \<noteq> None) (take (length df - 24) ?col))"
    using assms(2) by (simp add: shift_def Let_def)
  also have "\<dots> = length (take (length df - 24) ?col)"
    by (simp only: filter_defined_all [OF nomiss])
  also have "\<dots> = length df - 24" by simp
  finally have count: "length (filter (\<lambda>r. pm2_5_lag_24h r \<noteq> None) (create_features df)) =
        length df - 24" .
  from count show ?thesis by (simp add: lag_24h_nth)
qed

theorem lag_24h_defined_witness:
  "None \<notin> set (map pm2_5 example_long_day) \<and> 24 < length example_long_day \<and>
   length (filter (\<lambda>r. pm2_5_lag_24h r \<noteq> None) (create_features example_long_day)) = 2 \<and>
   pm2_5_lag_24h (create_features example_long_day ! 25) = Some 6"
proof -
  have h1: "\<forall>r \<in> set example_long_day. pm2_5 r \<noteq> None" by code_simp
  have h2: "24 < length example_long_day" by code_simp
  have l: "length example_long_day = 26" by code_simp
  have v: "pm2_5 (example_long_day ! 1) = Some 6" by code_simp
  have h0: "None \<notin> set (map pm2_5 example_long_day)" by code_simp
  from lag_24h_defined [OF h1 h2] h0 h2 l v show ?thesis by simp
qed

lemma avg_6h_nth:
  assumes "i < length df"
  shows "pm2_5_6h_avg (create_features df ! i) = rolling_mean 6 (map pm2_5 df) ! i"
  using assms by (simp add: create_features_def Let_def)

lemma avg_24h_nth:
  assumes "i < length df"
  shows "pm2_5_24h_avg (create_features df ! i) = rolling_mean 24 (map pm2_5 df) ! i"
  using assms by (simp add: create_features_def Let_def)

text \<open>
  Claim C6, amended: on row \<open>i\<close> (counted from 0) \<open>pm2_5_6h_avg\<close> is missing exactly when
  \<open>i < 5\<close> or one of the rows \<open>i - 5\<close> to \<open>i\<close> has a missing pm2.5, \<open>pm2_5_24h_avg\<close>
  exactly when \<open>i < 23\<close> or one of the rows \<open>i - 23\<close> to \<open>i\<close> has, and \<open>pm2_5_lag_1h\<close>
  exactly when \<open>i = 0\<close> or row \<open>i - 1\<close> has.  So for a table without missing pm2.5 the
  rolling means are missing on exactly the first 5 and the first 23 rows, and the lag
  on exactly the first row: the window of a rolling mean includes the current row.
\<close>

theorem rolling_and_lag_missing:
  assumes "i < length df"
  shows "(pm2_5_6h_avg (create_features df ! i) = None \<longleftrightarrow>
            i < 5 \<or> (\<exists>j. i \<le> j + 5 \<and> j \<le> i \<and> pm2_5 (df ! j) = None)) \<and>
         (pm2_5_24h_avg (create_features df ! i) = None \<longleftrightarrow>
            i < 23 \<or> (\<exists>j. i \<le> j + 23 \<and> j \<le> i \<and> pm2_5 (df ! j) = None)) \<and>
         (pm2_5_lag_1h (create_features df ! i) = None \<longleftrightarrow>
            i = 0 \<or> pm2_5 (df ! (i - 1)) = None) \<and>
         ((\<forall>r \<in> set df. pm2_5 r \<noteq> None) \<longrightarrow>
            (pm2_5_6h_avg (create_features df ! i) = None \<longleftrightarrow> i < 5) \<and>
            (pm2_5_24h_avg (create_features df ! i) = None \<longleftrightarrow> i < 23) \<and>
            (pm2_5_lag_1h (create_features df ! i) = None \<longleftrightarrow> i = 0))"
proof -
  have len: "i < length (map pm2_5 df)" using assms by simp
  have nth: "map pm2_5 df ! j = pm2_5 (df ! j)" if "j \<le> i" for j
    using that assms by simp
  have win: "(\<exists>j. i \<le> j + k \<and> j \<le> i \<and> map pm2_5 df ! j = None) \<longleftrightarrow>
             (\<exists>j. i \<le> j + k \<and> j \<le> i \<and> pm2_5 (df ! j) = None)" for k
    using nth by metis
  have a: "pm2_5_6h_avg (create_features df ! i) = None \<longleftrightarrow>
            i < 5 \<or> (\<exists>j. i \<le> j + 5 \<and> j \<le> i \<and> pm2_5 (df ! j) = None)"
    using rolling_mean_None_iff [OF len, of 6] win [of 5]
    by (simp add: avg_6h_nth [OF assms] del: not_None_eq)
  have b: "pm2_5_24h_avg (create_features df ! i) = None \<longleftrightarrow>
            i < 23 \<or> (\<exists>j. i \<le> j + 23 \<and> j \<le> i \<and> pm2_5 (df ! j) = None)"
    using rolling_mean_None_iff [OF len, of 24] win [of 23]
    by (simp add: avg_24h_nth [OF assms] del: not_None_eq)
  have c: "pm2_5_lag_1h (create_features df ! i) = None \<longleftrightarrow>
            i = 0 \<or> pm2_5 (df ! (i - 1)) = None"
    by (simp add: lag_1h_nth [OF assms] del: not_None_eq)
  have d: "pm2_5 (df ! j) \<noteq> None" if "\<forall>r \<in> set df. pm2_5 r \<noteq> None" and "j \<le> i" for j
  proof -
    from that(2) assms have "df ! j \<in> set df" by simp
    with that(1) show ?thesis by blast
  qed
  have e: "(\<forall>r \<in> set df. pm2_5 r \<noteq> None) \<longrightarrow>
            (pm2_5_6h_avg (create_features df ! i) = None \<longleftrightarrow> i < 5) \<and>
            (pm2_5_24h_avg (create_features df ! i) = None \<longleftrightarrow> i < 23) \<and>
            (pm2_5_lag_1h (create_features df ! i) = None \<longleftrightarrow> i = 0)"
  proof
    assume nm: "\<forall>r \<in> set df. pm2_5 r \<noteq> None"
    have nowin: "\<not> (\<exists>j. i \<le> j + k \<and> j \<le> i \<and> pm2_5 (df ! j) = None)" for k
      using d [OF nm] by blast
    have prev: "pm2_5 (df ! (i - 1)) \<noteq> None" using d [OF nm, of "i - 1"] by simp
    have a': "pm2_5_6h_avg (create_features df ! i) = None \<longleftrightarrow> i < 5"
      using a nowin [of 5] by metis
    have b': "pm2_5_24h_avg (create_features df ! i) = None \<longleftrightarrow> i < 23"
      using b nowin [of 23] by metis
    have c': "pm2_5_lag_1h (create_features df ! i) = None \<longleftrightarrow> i = 0"
      using c prev by metis
    from a' b' c' show "(pm2_5_6h_avg (create_features df ! i) = None \<longleftrightarrow> i < 5) \<and>
            (pm2_5_24h_avg (create_features df ! i) = None \<longleftrightarrow> i < 23) \<and>
            (pm2_5_lag_1h (create_features df ! i) = None \<longleftrightarrow> i = 0)"
      by (intro conjI)
  qed
  from a b c e show ?thesis by (intro conjI)
qed

theorem rolling_and_lag_missing_witness:
  "5 < length example_long_day \<and> None \<notin> set (map pm2_5 example_long_day) \<and>
   pm2_5_6h_avg (create_features example_long_day ! 5) \<noteq> None \<and>
   pm2_5_24h_avg (create_features example_long_day ! 5) = None \<and>
   pm2_5_lag_1h (create_features example_long_day ! 5) \<noteq> None"
proof -
  have h1: "\<forall>r \<in> set example_long_day. pm2_5 r \<noteq> None" by code_simp
  have h2: "5 < length example_long_day" by code_simp
  have h0: "None \<notin> set (map pm2_5 example_long_day)" by code_simp
  from rolling_and_lag_missing [OF h2] h1 h0 h2 show ?thesis by simp
qed

text \<open>
  Claim C6, as stated, on a table of 26 rows without missing pm2.5: the sixth row
  (index 5) has a 6-row rolling mean and the 24th row (index 23) has a 24-row rolling
  mean, so the rolling means are not missing on all of the first 6 and first 24 rows.
\<close>

theorem sixth_row_has_rolling_mean:
  "pm2_5_6h_avg (create_features example_long_day ! 5) = Some 6 \<and>
   pm2_5_24h_avg (create_features example_long_day ! 23) = Some 6"
  by code_simp

section \<open>Properties of the daily table\<close>

lemma length_create_daily_data:
  "length (create_daily_data df) = length (sort (remdups (map feature_row.date df)))"
  by (simp add: create_daily_data_def Let_def)

lemma create_daily_data_dates:
  "map date (create_daily_data df) = sort (remdups (map feature_row.date df))"
  by (rule nth_equalityI) (simp_all add: create_daily_data_def Let_def)

lemma daily_avg_column:
  "map daily_avg_aqi (create_daily_data df) =
   map (\<lambda>k. pd_round 2 (pd_mean (map aqi (date_group df k))))
       (sort (remdups (map feature_row.date df)))"
  by (rule nth_equalityI) (simp_all add: create_daily_data_def Let_def)

lemma daily_std_nth:
  assumes "i < length (create_daily_data df)"
  shows "daily_std_aqi (create_daily_data df ! i) =
         pd_round 2 (pd_std (map aqi (date_group df (date (create_daily_data df ! i)))))"
  using assms by (simp add: create_daily_data_def Let_def)

lemma prev_day_nth:
  assumes "i < length (create_daily_data df)"
  shows "prev_day_aqi (create_daily_data df ! i) =
         shift 1 (map daily_avg_aqi (create_daily_data df)) ! i"
  using assms unfolding daily_avg_column by (simp add: create_daily_data_def Let_def)

lemma next_day_nth:
  assumes "i < length (create_daily_data df)"
  shows "next_day_aqi (create_daily_data df ! i) =
         shift (- 1) (map daily_avg_aqi (create_daily_data df)) ! i"
  using assms unfolding daily_avg_column by (simp add: create_daily_data_def Let_def)

lemma sort_remdups_two:
  fixes d1 d2 :: "'a :: linorder"
  assumes "set xs = {d1, d2}" and "d1 < d2"
  shows "sort (remdups xs) = [d1, d2]"
proof (rule sorted_distinct_set_unique)
  show "sorted (sort (remdups xs))" by simp
  show "distinct (sort (remdups xs))" by simp
  show "sorted [d1, d2]" using assms(2) by simp
  show "distinct [d1, d2]" using assms(2) by simp
  show "set (sort (remdups xs)) = set [d1, d2]" using assms(1) by simp
qed

lemma pd_mean_all_defined:
  assumes "None \<notin> set xs" and "xs \<noteq> []"
  shows "pd_mean xs = Some (sum_list (map the xs) / real (length xs))"
proof -
  from assms(1) have "\<forall>c \<in> set xs. c \<noteq> None" by metis
  then have "filter (\<lambda>c. c \<noteq> None) xs = xs" by (simp only: filter_id_conv)
  then have "dropna xs = map the xs" by (simp only: dropna_def)
  with assms(2) show ?thesis by (simp add: pd_mean_def)
qed

lemma rint_nearest:
  "\<bar>of_int (rint x) - x\<bar> \<le> 1 / 2 \<and> (\<bar>of_int (rint x) - x\<bar> = 1 / 2 \<longrightarrow> even (rint x))"
  unfolding rint_def Let_def by (auto simp: abs_if) linarith+

lemma pd_round_2_nearest:
  "\<exists>n :: int. pd_round 2 (Some x) = Some (of_int n / 100) \<and>
      \<bar>of_int n - 100 * x\<bar> \<le> 1 / 2 \<and> (\<bar>of_int n - 100 * x\<bar> = 1 / 2 \<longrightarrow> even n)"
proof -
  have "pd_round 2 (Some x) = Some (of_int (rint (x * 100)) / 100)" by (simp add: pd_round_def)
  then show ?thesis using rint_nearest [of "x * 100"] by (auto simp: mult.commute)
qed

lemma create_features_dates:
  "map feature_row.date (create_features df) = map (dt_date \<circ> timestamp) df"
  by (rule nth_equalityI) (simp_all add: create_features_def Let_def)

lemma create_features_obs: "map obs (create_features df) = df"
  by (rule nth_equalityI) (simp_all add: create_features_def Let_def)

lemma date_group_create_features:
  "date_group (create_features df) k = filter (\<lambda>r. dt_date (timestamp r) = k) df"
proof -
  have eq: "feature_row.date r = dt_date (timestamp (obs r))" if "r \<in> set (create_features df)" for r
    using that by (auto simp: create_features_def Let_def)
  have "date_group (create_features df) k =
        map obs (filter (\<lambda>r. dt_date (timestamp (obs r)) = k) (create_features df))"
    unfolding date_group_def by (simp add: eq cong: filter_cong)
  also have "\<dots> = filter (\<lambda>r. dt_date (timestamp r) = k) (map obs (create_features df))"
    by (simp add: filter_map comp_def)
  finally show ?thesis by (simp only: create_features_obs)
qed

text \<open>
  Claim C7: for a table whose rows fall on two calendar dates, 24 rows on each, with no
  missing AQI, \<open>create_daily_data\<close> returns two rows, the earlier date first.  The
  \<open>daily_avg_aqi\<close> of each is the unweighted mean of the day's 24 AQI values (their sum
  divided by 24) rounded to two decimals: a whole number of hundredths, the one
  nearest to the mean, the even one when two are equally near.  The \<open>prev_day_aqi\<close> of
  the second row is the \<open>daily_avg_aqi\<close> of the first, and the \<open>next_day_aqi\<close> of the
  last row is missing.
\<close>

theorem two_full_days:
  assumes "set (map feature_row.date df) = {d1, d2}" and "d1 < d2"
    and "\<forall>r \<in> set df. aqi (obs r) \<noteq> None"
    and "length (date_group df d1) = 24" and "length (date_group df d2) = 24"
  shows "\<exists>r1 r2. \<exists>n1 n2 :: int.
           create_daily_data df = [r1, r2] \<and> date r1 = d1 \<and> date r2 = d2 \<and>
           daily_avg_aqi r1 = Some (of_int n1 / 100) \<and>
           \<bar>of_int n1 - 100 * (sum_list (map (the \<circ> aqi) (date_group df d1)) / 24)\<bar> \<le> 1 / 2 \<and>
           (\<bar>of_int n1 - 100 * (sum_list (map (the \<circ> aqi) (date_group df d1)) / 24)\<bar> = 1 / 2
              \<longrightarrow> even n1) \<and>
           daily_avg_aqi r2 = Some (of_int n2 / 100) \<and>
           \<bar>of_int n2 - 100 * (sum_list (map (the \<circ> aqi) (date_group df d2)) / 24)\<bar> \<le> 1 / 2 \<and>
           (\<bar>of_int n2 - 100 * (sum_list (map (the \<circ> aqi) (date_group df d2)) / 24)\<bar> = 1 / 2
              \<longrightarrow> even n2) \<and>
           prev_day_aqi r2 = daily_avg_aqi r1 \<and> next_day_aqi r2 = None \<and>
           prev_day_aqi r1 = None \<and> next_day_aqi r1 = daily_avg_aqi r2"
proof -
  let ?t = "create_daily_data df"
  have keys: "sort (remdups (map feature_row.date df)) = [d1, d2]"
    using assms(1,2) by (rule sort_remdups_two)
  have len: "length ?t = 2" by (simp add: length_create_daily_data keys)
  then obtain r1 r2 where t: "?t = [r1, r2]"
    by (auto simp: length_Suc_conv numeral_2_eq_2)
  have dates: "date r1 = d1" "date r2 = d2"
    using create_daily_data_dates [of df] by (simp_all add: keys t)
  have mean: "pd_mean (map aqi (date_group df d)) =
              Some (sum_list (map (the \<circ> aqi) (date_group df d)) / 24)"
    if "length (date_group df d) = 24" for d
  proof -
    have "None \<notin> set (map aqi (date_group df d))"
      using assms(3) by (auto simp: date_group_def simp del: not_None_eq)
    moreover have "map aqi (date_group df d) \<noteq> []" using that by auto
    ultimately show ?thesis using that by (simp add: pd_mean_all_defined comp_def)
  qed
  have avgs: "daily_avg_aqi r1 =
             pd_round 2 (Some (sum_list (map (the \<circ> aqi) (date_group df d1)) / 24))"
     "daily_avg_aqi r2 =
             pd_round 2 (Some (sum_list (map (the \<circ> aqi) (date_group df d2)) / 24))"
    using daily_avg_column [of df] by (simp_all add: keys t mean assms(4,5))
  have col: "map daily_avg_aqi ?t = [daily_avg_aqi r1, daily_avg_aqi r2]" by (simp add: t)
  have p1: "prev_day_aqi r1 = None" using prev_day_nth [of 0 df] len
    by (simp add: col) (simp add: t shift_def)
  have p2: "prev_day_aqi r2 = daily_avg_aqi r1" using prev_day_nth [of 1 df] len
    by (simp add: col) (simp add: t shift_def)
  have n1: "next_day_aqi r1 = daily_avg_aqi r2" using next_day_nth [of 0 df] len
    by (simp add: col) (simp add: t shift_def)
  have n2: "next_day_aqi r2 = None" using next_day_nth [of 1 df] len
    by (simp add: col) (simp add: t shift_def)
  obtain k1 :: int where k1:
    "pd_round 2 (Some (sum_list (map (the \<circ> aqi) (date_group df d1)) / 24)) = Some (of_int k1 / 100)"
    "\<bar>of_int k1 - 100 * (sum_list (map (the \<circ> aqi) (date_group df d1)) / 24)\<bar> \<le> 1 / 2"
    "\<bar>of_int k1 - 100 * (sum_list (map (the \<circ> aqi) (date_group df d1)) / 24)\<bar> = 1 / 2
       \<longrightarrow> even k1"
    using pd_round_2_nearest by blast
  obtain k2 :: int where k2:
    "pd_round 2 (Some (sum_list (map (the \<circ> aqi) (date_group df d2)) / 24)) = Some (of_int k2 / 100)"
    "\<bar>of_int k2 - 100 * (sum_list (map (the \<circ> aqi) (date_group df d2)) / 24)\<bar> \<le> 1 / 2"
    "\<bar>of_int k2 - 100 * (sum_list (map (the \<circ> aqi) (date_group df d2)) / 24)\<bar> = 1 / 2
       \<longrightarrow> even k2"
    using pd_round_2_nearest by blast
  have a1: "daily_avg_aqi r1 = Some (of_int k1 / 100)" using avgs(1) k1(1) by simp
  have a2: "daily_avg_aqi r2 = Some (of_int k2 / 100)" using avgs(2) k2(1) by simp
  from t dates a1 k1(2,3) a2 k2(2,3) p2 n2 p1 n1 show ?thesis by (intro exI conjI)
qed



theorem two_full_days_witness:
  "set (map feature_row.date (create_features example_two_days)) = {(2024, 1, 1), (2024, 1, 2)} \<and>
   None \<notin> set (map aqi example_two_days) \<and>
   length (date_group (create_features example_two_days) (2024, 1, 1)) = 24 \<and>
   length (date_group (create_features example_two_days) (2024, 1, 2)) = 24 \<and>
   sum_list (map (the \<circ> aqi) (date_group (create_features example_two_days) (2024, 1, 1))) / 24
     = 575 / 24 \<and>
   sum_list (map (the \<circ> aqi) (date_group (create_features example_two_days) (2024, 1, 2))) / 24
     = 575 / 48 \<and>
   (\<exists>r1 r2. create_daily_data (create_features example_two_days) = [r1, r2] \<and>
       daily_avg_aqi r1 = Some 23.96 \<and> daily_avg_aqi r2 = Some 11.98 \<and>
       prev_day_aqi r2 = Some 23.96 \<and> next_day_aqi r2 = None)"
proof -
  let ?df = "create_features example_two_days"
  have h1: "set (map feature_row.date ?df) = {(2024, 1, 1), (2024, 1, 2)}"
    unfolding create_features_dates by code_simp
  have h2: "(2024 :: int, 1 :: nat, 1 :: nat) < (2024, 1, 2)" by simp
  have "\<forall>r \<in> set example_two_days. aqi r \<noteq> None" by code_simp
  then have "\<forall>r \<in> set (map obs ?df). aqi r \<noteq> None" by (simp only: create_features_obs)
  then have h3: "\<forall>r \<in> set ?df. aqi (obs r) \<noteq> None" by simp
  have h4: "length (date_group ?df (2024, 1, 1)) = 24"
    unfolding date_group_create_features by code_simp
  have h5: "length (date_group ?df (2024, 1, 2)) = 24"
    unfolding date_group_create_features by code_simp
  have s1: "sum_list (map (the \<circ> aqi) (date_group ?df (2024, 1, 1))) / 24 = 575 / 24"
    unfolding date_group_create_features by code_simp
  have s2: "sum_list (map (the \<circ> aqi) (date_group ?df (2024, 1, 2))) / 24 = 575 / 48"
    unfolding date_group_create_features by code_simp
  have h0: "None \<notin> set (map aqi example_two_days)" by code_simp
  from two_full_days [OF h1 h2 h3 h4 h5, unfolded s1 s2]
  obtain r1 r2 and n1 n2 :: int where t: "create_daily_data ?df = [r1, r2]"
    and a1: "daily_avg_aqi r1 = Some (of_int n1 / 100)"
    and b1: "\<bar>of_int n1 - 100 * (575 / 24 :: real)\<bar> \<le> 1 / 2"
    and a2: "daily_avg_aqi r2 = Some (of_int n2 / 100)"
    and b2: "\<bar>of_int n2 - 100 * (575 / 48 :: real)\<bar> \<le> 1 / 2"
    and p2: "prev_day_aqi r2 = daily_avg_aqi r1" and n2: "next_day_aqi r2 = None"
    by blast
  from b1 have "n1 = 2396" by linarith
  with a1 have v1: "daily_avg_aqi r1 = Some 23.96" by simp
  from b2 have "n2 = 1198" by linarith
  with a2 have v2: "daily_avg_aqi r2 = Some 11.98" by simp
  from p2 v1 have v3: "prev_day_aqi r2 = Some 23.96" by simp
  from t v1 v2 v3 n2 have "\<exists>r1 r2. create_daily_data ?df = [r1, r2] \<and>
       daily_avg_aqi r1 = Some 23.96 \<and> daily_avg_aqi r2 = Some 11.98 \<and>
       prev_day_aqi r2 = Some 23.96 \<and> next_day_aqi r2 = None" by blast
  with h1 h0 h4 h5 s1 s2 show ?thesis by (intro conjI)
qed

text \<open>
  Claim C8, amended: the table has one row per calendar date of the input, and the
  \<open>daily_std_aqi\<close> of a row is the sample standard deviation of the non-missing AQI
  values of its date (the sum of squared deviations from their mean divided by
  \<open>n - 1\<close>, not by \<open>n\<close>), rounded to two decimals: a whole number of hundredths, the
  one nearest to the deviation, the even one when two are equally near.  It is missing
  when the date has fewer than two such values.
\<close>

theorem daily_std_is_sample_std:
  assumes "i < length (create_daily_data df)"
  shows "map date (create_daily_data df) = sort (remdups (map feature_row.date df)) \<and>
         (let row = create_daily_data df ! i;
              vs = dropna (map aqi (date_group df (date row)));
              n = length vs;
              m = sum_list vs / real n
          in daily_std_aqi row =
               (if n < 2 then None
                else pd_round 2 (Some (sqrt (sum_list (map (\<lambda>v. (v - m)\<^sup>2) vs) / (real n - 1)))))) \<and>
         (let row = create_daily_data df ! i;
              vs = dropna (map aqi (date_group df (date row)));
              n = length vs;
              m = sum_list vs / real n;
              s = sqrt (sum_list (map (\<lambda>v. (v - m)\<^sup>2) vs) / (real n - 1))
          in \<not> n < 2 \<longrightarrow>
               (\<exists>k :: int. daily_std_aqi row = Some (of_int k / 100) \<and>
                   \<bar>of_int k - 100 * s\<bar> \<le> 1 / 2 \<and> (\<bar>of_int k - 100 * s\<bar> = 1 / 2 \<longrightarrow> even k)))"
proof -
  have sub: "real (n - 1) = real n - 1" if "\<not> n < 2" for n :: nat
    using that by (simp add: of_nat_diff)
  have dates: "map date (create_daily_data df) = sort (remdups (map feature_row.date df))"
    by (rule create_daily_data_dates)
  have std: "(let row = create_daily_data df ! i;
              vs = dropna (map aqi (date_group df (date row)));
              n = length vs;
              m = sum_list vs / real n
          in daily_std_aqi row =
               (if n < 2 then None
                else pd_round 2 (Some (sqrt (sum_list (map (\<lambda>v. (v - m)\<^sup>2) vs) / (real n - 1))))))"
    using assms sub by (simp add: daily_std_nth pd_std_def Let_def pd_round_def)
  have rnd: "(let row = create_daily_data df ! i;
              vs = dropna (map aqi (date_group df (date row)));
              n = length vs;
              m = sum_list vs / real n;
              s = sqrt (sum_list (map (\<lambda>v. (v - m)\<^sup>2) vs) / (real n - 1))
          in \<not> n < 2 \<longrightarrow>
               (\<exists>k :: int. daily_std_aqi row = Some (of_int k / 100) \<and>
                   \<bar>of_int k - 100 * s\<bar> \<le> 1 / 2 \<and> (\<bar>of_int k - 100 * s\<bar> = 1 / 2 \<longrightarrow> even k)))"
    unfolding Let_def
  proof
    let ?vs = "dropna (map aqi (date_group df (date (create_daily_data df ! i))))"
    let ?s = "sqrt (sum_list (map (\<lambda>v. (v - sum_list ?vs / real (length ?vs))\<^sup>2) ?vs) /
                 (real (length ?vs) - 1))"
    assume big: "\<not> length ?vs < 2"
    from std [unfolded Let_def] big
    have "daily_std_aqi (create_daily_data df ! i) = pd_round 2 (Some ?s)" by simp
    with pd_round_2_nearest [of ?s]
    show "\<exists>k :: int. daily_std_aqi (create_daily_data df ! i) = Some (of_int k / 100) \<and>
            \<bar>of_int k - 100 * ?s\<bar> \<le> 1 / 2 \<and> (\<bar>of_int k - 100 * ?s\<bar> = 1 / 2 \<longrightarrow> even k)"
      by simp
  qed
  from dates std rnd show ?thesis by (intro conjI)
qed

lemma example_std_day_group:
  "map aqi (date_group (create_features example_std_day) (2024, 1, 3)) =
   [Some 1, Some 1, Some 1, Some 5]"
  unfolding date_group_create_features by code_simp

lemma example_std_day_keys:
  "sort (remdups (map feature_row.date (create_features example_std_day))) = [(2024, 1, 3)]"
  unfolding create_features_dates by code_simp

lemma example_odd_day_group:
  "map aqi (date_group (create_features example_odd_day) (2024, 1, 4)) = [Some 1, Some 3]"
  unfolding date_group_create_features by code_simp

lemma example_odd_day_keys:
  "sort (remdups (map feature_row.date (create_features example_odd_day))) = [(2024, 1, 4)]"
  unfolding create_features_dates by code_simp

lemma sqrt_2_bounds: "141 \<le> 100 * sqrt 2" "100 * sqrt 2 < 141.5"
proof -
  have e: "100 * sqrt 2 = sqrt 20000"
    using real_sqrt_mult [of 10000 2] by simp
  have "(141 :: real)\<^sup>2 \<le> 20000" by (simp add: power2_eq_square)
  then show "141 \<le> 100 * sqrt 2" unfolding e by (rule real_le_rsqrt)
  have "(20000 :: real) < 141.5\<^sup>2" by (simp add: power2_eq_square)
  then show "100 * sqrt 2 < 141.5" unfolding e by (intro real_less_lsqrt) simp_all
qed

theorem daily_std_is_sample_std_witness:
  "0 < length (create_daily_data (create_features example_std_day)) \<and>
   date (create_daily_data (create_features example_std_day) ! 0) = (2024, 1, 3) \<and>
   daily_std_aqi (create_daily_data (create_features example_std_day) ! 0) = Some 2 \<and>
   0 < length (create_daily_data (create_features example_odd_day)) \<and>
   date (create_daily_data (create_features example_odd_day) ! 0) = (2024, 1, 4) \<and>
   daily_std_aqi (create_daily_data (create_features example_odd_day) ! 0) = Some 1.41"
proof -
  let ?t = "create_daily_data (create_features example_std_day)"
  have l: "0 < length ?t" by (simp add: length_create_daily_data example_std_day_keys)
  have d: "map date ?t = [(2024, 1, 3)]"
    by (simp only: create_daily_data_dates example_std_day_keys)
  then have d0: "date (?t ! 0) = (2024, 1, 3)" using l by (metis nth_Cons_0 nth_map)
  have v: "dropna [Some 1, Some 1, Some 1, Some (5 :: real)] = [1, 1, 1, 5]"
    by (simp add: dropna_def)
  have r: "pd_round 2 (Some 2) = Some 2" by (simp add: pd_round_def rint_def)
  have first: "daily_std_aqi (?t ! 0) = Some 2"
    using daily_std_is_sample_std [OF l, THEN conjunct2, THEN conjunct1,
        unfolded Let_def d0 example_std_day_group v]
    by (simp add: power2_eq_square r)
  let ?u = "create_daily_data (create_features example_odd_day)"
  have l': "0 < length ?u" by (simp add: length_create_daily_data example_odd_day_keys)
  have "map date ?u = [(2024, 1, 4)]"
    by (simp only: create_daily_data_dates example_odd_day_keys)
  then have d0': "date (?u ! 0) = (2024, 1, 4)" using l' by (metis nth_Cons_0 nth_map)
  have v': "dropna [Some 1, Some (3 :: real)] = [1, 3]" by (simp add: dropna_def)
  from daily_std_is_sample_std [OF l', THEN conjunct2, THEN conjunct2,
        unfolded Let_def d0' example_odd_day_group v']
  obtain k :: int where k: "daily_std_aqi (?u ! 0) = Some (of_int k / 100)"
    "\<bar>of_int k - 100 * sqrt 2\<bar> \<le> 1 / 2"
    by (auto simp: power2_eq_square)
  from k(2) sqrt_2_bounds have "k = 141" by linarith
  with k(1) have second: "daily_std_aqi (?u ! 0) = Some 1.41" by simp
  from l d0 first l' d0' second show ?thesis by (intro conjI)
qed

lemma sqrt_3_bounds: "173 \<le> sqrt 3 * 100" "sqrt 3 * 100 < 173.5"
proof -
  have e: "sqrt 3 * 100 = sqrt 30000"
    using real_sqrt_mult [of 3 10000] by simp
  have "(173 :: real)\<^sup>2 \<le> 30000" by (simp add: power2_eq_square)
  then show "173 \<le> sqrt 3 * 100" unfolding e by (rule real_le_rsqrt)
  have "(30000 :: real) < 173.5\<^sup>2" by (simp add: power2_eq_square)
  then show "sqrt 3 * 100 < 173.5" unfolding e by (intro real_less_lsqrt) simp_all
qed

text \<open>
  Claim C8, as stated, on a day with the AQI values 1, 1, 1, 5: \<open>daily_std_aqi\<close> is 2,
  the square root of 12/3, where the population standard deviation, the square root
  of 12/4, rounds to 1.73.
\<close>

theorem daily_std_not_population_std:
  "daily_std_aqi (create_daily_data (create_features example_std_day) ! 0) = Some 2 \<and>
   pd_round 2 (spec_population_std
      (map aqi (date_group (create_features example_std_day) (2024, 1, 3)))) = Some 1.73"
proof -
  let ?t = "create_daily_data (create_features example_std_day)"
  have l: "0 < length ?t" by (simp add: length_create_daily_data example_std_day_keys)
  have d: "map date ?t = [(2024, 1, 3)]"
    by (simp only: create_daily_data_dates example_std_day_keys)
  then have d0: "date (?t ! 0) = (2024, 1, 3)" using l by (metis nth_Cons_0 nth_map)
  have v: "dropna [Some 1, Some 1, Some 1, Some (5 :: real)] = [1, 1, 1, 5]"
    by (simp add: dropna_def)
  have r: "pd_round 2 (Some 2) = Some 2" by (simp add: pd_round_def rint_def)
  have "daily_std_aqi (?t ! 0) =
        pd_round 2 (pd_std (map aqi (date_group (create_features example_std_day) (date (?t ! 0)))))"
    using l by (rule daily_std_nth)
  also have "\<dots> = pd_round 2 (pd_std [Some 1, Some 1, Some 1, Some 5])"
    unfolding d0 example_std_day_group ..
  also have "\<dots> = Some 2"
    by (simp add: pd_std_def v Let_def power2_eq_square r)
  finally have code: "daily_std_aqi (?t ! 0) = Some 2" .
  have fl: "\<lfloor>sqrt 3 * 100\<rfloor> = 173" using sqrt_3_bounds by linarith
  have "rint (sqrt 3 * 100) = 173" using sqrt_3_bounds by (simp add: rint_def Let_def fl)
  then have "pd_round 2 (Some (sqrt 3)) = Some 1.73" by (simp add: pd_round_def)
  then have pop: "pd_round 2 (spec_population_std
      (map aqi (date_group (create_features example_std_day) (2024, 1, 3)))) = Some 1.73"
    unfolding example_std_day_group
    by (simp add: spec_population_std_def v Let_def power2_eq_square)
  from code pop show ?thesis by (rule conjI)
qed

section \<open>Properties of the trainer\<close>













end
